theory Spec2Isabelle
  imports Complex_Main
begin

section \<open>Rate limiting configuration and the per-session window\<close>

text \<open>
  Source: \<^verbatim>\<open>src/server.js\<close>, lines 21-26.  \<^verbatim>\<open>Date.now()\<close> yields integer
  milliseconds, far below \<open>2^53\<close>, so the JavaScript doubles involved are exact
  integers and are modelled by \<^typ>\<open>int\<close>.
\<close>

type_synonym session_id = string
type_synonym timestamp = int
type_synonym tracker = "session_id \<rightharpoonup> timestamp list"

definition MESSAGE_LIMIT :: nat where
  "MESSAGE_LIMIT = 10"

definition TIME_WINDOW :: int where
  "TIME_WINDOW = 10 * 60 * 1000"

text \<open>
  \<^verbatim>\<open>if (!messageTracker[sessionId]) messageTracker[sessionId] = [];\<close>
  An array is always truthy, so only an absent key is replaced.
\<close>

definition window_of :: "tracker \<Rightarrow> session_id \<Rightarrow> timestamp list" where
  "window_of mt sid = (case mt sid of None \<Rightarrow> [] | Some w \<Rightarrow> w)"

text \<open>
  \<^verbatim>\<open>messageTracker[sessionId].filter(ts => now - ts < TIME_WINDOW)\<close>
\<close>

definition prune :: "timestamp \<Rightarrow> timestamp list \<Rightarrow> timestamp list" where
  "prune now w = filter (\<lambda>ts. now - ts < TIME_WINDOW) w"

text \<open>
  \<^verbatim>\<open>Math.ceil(x / 1000)\<close> on an integer \<open>x\<close>, written with integer division
  (which rounds towards minus infinity in HOL).
\<close>

definition ceil_div_1000 :: "int \<Rightarrow> int" where
  "ceil_div_1000 x = - ((- x) div 1000)"

text \<open>
  \<^verbatim>\<open>Math.ceil((TIME_WINDOW - (now - messageTracker[sessionId][0])) / 1000)\<close>
  Index 0 of an empty array is \<^verbatim>\<open>undefined\<close> and the arithmetic then gives
  \<^verbatim>\<open>NaN\<close>; that case is \<open>None\<close>.
\<close>

definition retryAfter :: "timestamp \<Rightarrow> timestamp list \<Rightarrow> int option" where
  "retryAfter now w =
     (case w of
        [] \<Rightarrow> None
      | ts0 # _ \<Rightarrow> Some (ceil_div_1000 (TIME_WINDOW - (now - ts0))))"

datatype admission = Admitted | Rejected "int option"

text \<open>
  The rate limit logic of the \<^verbatim>\<open>POST /send/:sessionId\<close> handler (lines 140-156):
  the pruned window is stored back in either case, and \<open>now\<close> is pushed only when the
  pruned window is shorter than the limit.
\<close>

definition rate_limit :: "tracker \<Rightarrow> session_id \<Rightarrow> timestamp \<Rightarrow> tracker \<times> admission" where
  "rate_limit mt sid now =
     (let w = prune now (window_of mt sid) in
      if length w \<ge> MESSAGE_LIMIT
      then (mt(sid \<mapsto> w), Rejected (retryAfter now w))
      else (mt(sid \<mapsto> w @ [now]), Admitted))"

text \<open>
  Operations on the tracker as the server performs them over time: an admission check
  of the send handler, or \<^verbatim>\<open>delete messageTracker[sessionId]\<close> of the
  connection handler (lines 79 and 90).
\<close>

datatype tracker_op = Check session_id timestamp | Forget session_id

fun apply_op :: "tracker \<Rightarrow> tracker_op \<Rightarrow> tracker" where
  "apply_op mt (Check sid now) = fst (rate_limit mt sid now)"
| "apply_op mt (Forget sid) = mt(sid := None)"

definition apply_ops :: "tracker \<Rightarrow> tracker_op list \<Rightarrow> tracker" where
  "apply_ops mt ops = foldl apply_op mt ops"

text \<open>
  A sequence of admission checks on one session id, at the given call times, with the
  outcome of each check.
\<close>

fun run_checks :: "tracker \<Rightarrow> session_id \<Rightarrow> timestamp list \<Rightarrow> tracker \<times> admission list" where
  "run_checks mt sid [] = (mt, [])"
| "run_checks mt sid (now # nows) =
     (case rate_limit mt sid now of
        (mt', a) \<Rightarrow> (case run_checks mt' sid nows of (mt'', as) \<Rightarrow> (mt'', a # as)))"

text \<open>The call times of the checks that were admitted, in call order.\<close>

definition admitted_times :: "tracker \<Rightarrow> session_id \<Rightarrow> timestamp list \<Rightarrow> timestamp list" where
  "admitted_times mt sid nows =
     map fst (filter (\<lambda>(t, a). a = Admitted) (zip nows (snd (run_checks mt sid nows))))"

text \<open>
  The admission check as the specification words it: timestamps older than
  \<open>now - windowDuration\<close> are removed (and only those), the rest is as above.
\<close>

definition spec_prune :: "timestamp \<Rightarrow> timestamp list \<Rightarrow> timestamp list" where
  "spec_prune now w = filter (\<lambda>ts. \<not> ts < now - TIME_WINDOW) w"

definition spec_tryAdmit :: "tracker \<Rightarrow> session_id \<Rightarrow> timestamp \<Rightarrow> tracker \<times> admission" where
  "spec_tryAdmit mt sid now =
     (let w = spec_prune now (window_of mt sid) in
      if length w < MESSAGE_LIMIT
      then (mt(sid \<mapsto> w @ [now]), Admitted)
      else (mt(sid \<mapsto> w),
            Rejected (Some (\<lceil>real_of_int (TIME_WINDOW - (now - hd w)) / 1000\<rceil>))))"

section \<open>Server state and the protocol client\<close>

text \<open>
  The two registries of lines 21 and 24, the two directories the server writes
  (\<^verbatim>\<open>auth/<id>\<close> and \<^verbatim>\<open>qr_codes/<id>.png\<close>, keyed by session id), and the log of the
  calls made to collaborators and timers, in the order they are made.  A socket object
  is represented by a handle number.
\<close>

record session =
  sock :: nat
  isConnected :: bool
  currentQR :: string

datatype payload =
    TextMsg "string option"
  | ImageMsg "nat list" "string option" "string option"

datatype call =
    MakeWASocket session_id
  | OnWhatsApp nat string
  | SendMessage nat string payload
  | AxiosGet string
  | Delay nat

record server =
  sessions :: "session_id \<rightharpoonup> session"
  messageTracker :: tracker
  auth_dirs :: "session_id set"
  qr_files :: "session_id \<rightharpoonup> string"
  calls :: "call list"

text \<open>
  The collaborators are not part of the program.  Each answers as a function of the
  server state at the moment of the call (which includes the log of earlier calls, so
  an answer may change from one call to the next); \<open>Inl\<close> carries the message of a
  thrown error.  \<open>makeWASocket\<close> stands for the three calls of lines 33-40;
  \<open>onWhatsApp\<close> answers \<open>None\<close> for \<^verbatim>\<open>undefined\<close> and otherwise the truthiness
  of \<^verbatim>\<open>exists\<close> of each array entry.
\<close>

record env =
  makeWASocket :: "server \<Rightarrow> session_id \<Rightarrow> string + nat"
  onWhatsApp :: "server \<Rightarrow> nat \<Rightarrow> string \<Rightarrow> string + bool list option"
  sendMessage :: "server \<Rightarrow> nat \<Rightarrow> string \<Rightarrow> payload \<Rightarrow> string + string"
  axios_get :: "server \<Rightarrow> string \<Rightarrow> string + nat list"

definition log_call :: "call \<Rightarrow> server \<Rightarrow> server" where
  "log_call c st = st\<lparr>calls := calls st @ [c]\<rparr>"

definition query_exists :: "env \<Rightarrow> nat \<Rightarrow> string \<Rightarrow> server \<Rightarrow> server \<times> (string + bool list option)" where
  "query_exists E h jid st = (log_call (OnWhatsApp h jid) st, onWhatsApp E st h jid)"

definition send_message :: "env \<Rightarrow> nat \<Rightarrow> string \<Rightarrow> payload \<Rightarrow> server \<Rightarrow> server \<times> (string + string)" where
  "send_message E h jid p st = (log_call (SendMessage h jid p) st, sendMessage E st h jid p)"

definition fetch :: "env \<Rightarrow> string \<Rightarrow> server \<Rightarrow> server \<times> (string + nat list)" where
  "fetch E url st = (log_call (AxiosGet url) st, axios_get E st url)"

section \<open>Session lifecycle\<close>

datatype handler_error = TypeError | StartFailed string

text \<open>\<^verbatim>\<open>startSession\<close>, lines 29-97.\<close>

definition startSession :: "env \<Rightarrow> session_id \<Rightarrow> server \<Rightarrow> (server \<times> handler_error) + server" where
  "startSession E sid st =
     (let st1 = st\<lparr>auth_dirs := insert sid (auth_dirs st)\<rparr>;
          st2 = log_call (MakeWASocket sid) st1
      in case makeWASocket E st1 sid of
           Inl err \<Rightarrow> Inl (st2, StartFailed err)
         | Inr h \<Rightarrow>
             Inr (st2\<lparr>sessions := (sessions st2)
                    (sid \<mapsto> \<lparr>sock = h, isConnected = False, currentQR = []\<rparr>)\<rparr>))"

text \<open>
  The argument of the \<^verbatim>\<open>connection.update\<close> event: each of the three destructured
  fields may be absent; \<open>ev_statusCode\<close> is
  \<^verbatim>\<open>lastDisconnect?.error?.output?.statusCode\<close>.
\<close>

datatype connection = Connecting | Open | Close

record conn_event =
  ev_connection :: "connection option"
  ev_statusCode :: "int option"
  ev_qr :: "string option"

text \<open>
  Lines 52-56.  A write to a property of the absent session throws a
  \<^verbatim>\<open>TypeError\<close>, after the file has been written.
\<close>

definition on_qr :: "session_id \<Rightarrow> conn_event \<Rightarrow> server \<Rightarrow> (server \<times> handler_error) + server" where
  "on_qr sid ev st =
     (case ev_qr ev of
        None \<Rightarrow> Inr st
      | Some q \<Rightarrow>
          if q = [] then Inr st
          else (let st1 = st\<lparr>qr_files := (qr_files st)(sid \<mapsto> q)\<rparr>
                in case sessions st1 sid of
                     None \<Rightarrow> Inl (st1, TypeError)
                   | Some s \<Rightarrow>
                       Inr (st1\<lparr>sessions := (sessions st1)(sid \<mapsto> s\<lparr>currentQR := q\<rparr>)\<rparr>)))"

text \<open>Lines 58-61.\<close>

definition on_open :: "session_id \<Rightarrow> conn_event \<Rightarrow> server \<Rightarrow> (server \<times> handler_error) + server" where
  "on_open sid ev st =
     (if ev_connection ev = Some Open
      then (case sessions st sid of
              None \<Rightarrow> Inl (st, TypeError)
            | Some s \<Rightarrow> Inr (st\<lparr>sessions := (sessions st)(sid \<mapsto> s\<lparr>isConnected := True\<rparr>)\<rparr>))
      else Inr st)"

text \<open>
  Lines 63-94.  \<open>loggedOut\<close> is \<^verbatim>\<open>DisconnectReason.loggedOut\<close>, a constant of the
  protocol library, taken as a parameter.
\<close>

definition on_close :: "env \<Rightarrow> int \<Rightarrow> session_id \<Rightarrow> conn_event \<Rightarrow> server \<Rightarrow> (server \<times> handler_error) + server" where
  "on_close E loggedOut sid ev st =
     (if ev_connection ev = Some Close
      then (if ev_statusCode ev = Some loggedOut
            then Inr (st\<lparr>auth_dirs := auth_dirs st - {sid},
                         qr_files := (qr_files st)(sid := None),
                         sessions := (sessions st)(sid := None),
                         messageTracker := (messageTracker st)(sid := None)\<rparr>)
            else startSession E sid
                   (st\<lparr>qr_files := (qr_files st)(sid := None),
                       sessions := (sessions st)(sid := None),
                       messageTracker := (messageTracker st)(sid := None)\<rparr>))
      else Inr st)"

text \<open>
  The handler of \<^verbatim>\<open>connection.update\<close>, lines 46-95: the three tests in order.
  The directory \<^verbatim>\<open>qr_codes\<close> that lines 47-48 make sure of is not part of the
  state, and the console output is left out throughout.
\<close>

definition on_connection_update :: "env \<Rightarrow> int \<Rightarrow> session_id \<Rightarrow> conn_event \<Rightarrow> server \<Rightarrow> (server \<times> handler_error) + server" where
  "on_connection_update E loggedOut sid ev st =
     (case on_qr sid ev st of
        Inl e \<Rightarrow> Inl e
      | Inr st1 \<Rightarrow>
          (case on_open sid ev st1 of
             Inl e \<Rightarrow> Inl e
           | Inr st2 \<Rightarrow> on_close E loggedOut sid ev st2))"

section \<open>Single send\<close>

text \<open>\<^verbatim>\<open>String.prototype.includes\<close>.\<close>

fun starts_with :: "string \<Rightarrow> string \<Rightarrow> bool" where
  "starts_with s [] = True"
| "starts_with [] (c # cs) = False"
| "starts_with (x # xs) (c # cs) = (x = c \<and> starts_with xs cs)"

fun str_includes :: "string \<Rightarrow> string \<Rightarrow> bool" where
  "str_includes [] sub = (sub = [])"
| "str_includes (x # xs) sub = (starts_with (x # xs) sub \<or> str_includes xs sub)"

text \<open>Lines 159 and 221.\<close>

definition jid_of :: "string \<Rightarrow> string" where
  "jid_of number =
     (if str_includes number ''@s.whatsapp.net'' then number else number @ ''@s.whatsapp.net'')"

text \<open>
  The fields of the request the handler reads: \<^verbatim>\<open>req.body.number\<close>,
  \<^verbatim>\<open>req.body.message\<close>, \<^verbatim>\<open>req.file\<close> (buffer and mimetype) and
  \<^verbatim>\<open>req.body.image\<close>.  The number is taken to be a string.
\<close>

record send_request =
  req_number :: string
  req_message :: "string option"
  req_file :: "(nat list \<times> string) option"
  req_image :: "string option"

datatype send_response =
    SessionNotConnected
  | RateLimitExceeded "int option"
  | NumberNotRegistered
  | MessageSent string
  | SendFailed string

fun send_status :: "send_response \<Rightarrow> nat" where
  "send_status SessionNotConnected = 400"
| "send_status (RateLimitExceeded r) = 429"
| "send_status NumberNotRegistered = 404"
| "send_status (MessageSent d) = 200"
| "send_status (SendFailed e) = 500"

text \<open>\<^verbatim>\<open>result?.[0]?.exists\<close>\<close>

definition first_exists :: "bool list option \<Rightarrow> bool" where
  "first_exists result = (case result of Some (e # _) \<Rightarrow> e | _ \<Rightarrow> False)"

fun respond :: "server \<times> (string + string) \<Rightarrow> server \<times> send_response" where
  "respond (st, Inr msgResponse) = (st, MessageSent msgResponse)"
| "respond (st, Inl err) = (st, SendFailed err)"

text \<open>The \<^verbatim>\<open>try\<close> block of the handler with its \<^verbatim>\<open>catch\<close>, lines 161-192.\<close>

definition deliver :: "env \<Rightarrow> nat \<Rightarrow> string \<Rightarrow> send_request \<Rightarrow> server \<Rightarrow> server \<times> send_response" where
  "deliver E h jid req st =
     (case query_exists E h jid st of
        (st1, Inl err) \<Rightarrow> (st1, SendFailed err)
      | (st1, Inr result) \<Rightarrow>
          if \<not> first_exists result then (st1, NumberNotRegistered)
          else (case req_file req of
                  Some (buffer, mimetype) \<Rightarrow>
                    respond (send_message E h jid (ImageMsg buffer (Some mimetype) (req_message req)) st1)
                | None \<Rightarrow>
                    (case req_image req of
                       None \<Rightarrow> respond (send_message E h jid (TextMsg (req_message req)) st1)
                     | Some url \<Rightarrow>
                         if url = [] then respond (send_message E h jid (TextMsg (req_message req)) st1)
                         else (case fetch E url st1 of
                                 (st2, Inl err) \<Rightarrow> (st2, SendFailed err)
                               | (st2, Inr data) \<Rightarrow>
                                   respond (send_message E h jid (ImageMsg data None (req_message req)) st2)))))"

text \<open>
  \<^verbatim>\<open>POST /send/:sessionId\<close>, lines 132-193, called at time \<open>now\<close>
  (\<^verbatim>\<open>Date.now()\<close>).  The handler is modelled as one uninterrupted run.
\<close>

definition send :: "env \<Rightarrow> session_id \<Rightarrow> send_request \<Rightarrow> timestamp \<Rightarrow> server \<Rightarrow> server \<times> send_response" where
  "send E sid req now st =
     (case sessions st sid of
        None \<Rightarrow> (st, SessionNotConnected)
      | Some s \<Rightarrow>
          if \<not> isConnected s then (st, SessionNotConnected)
          else (case rate_limit (messageTracker st) sid now of
                  (mt, Rejected r) \<Rightarrow> (st\<lparr>messageTracker := mt\<rparr>, RateLimitExceeded r)
                | (mt, Admitted) \<Rightarrow>
                    deliver E (sock s) (jid_of (req_number req)) req (st\<lparr>messageTracker := mt\<rparr>)))"

section \<open>Bulk send\<close>

datatype status = Sent | SentRetry | Failed | Skipped

fun status_text :: "status \<Rightarrow> string" where
  "status_text Sent = ''sent''"
| "status_text SentRetry = ''sent (retry)''"
| "status_text Failed = ''failed''"
| "status_text Skipped = ''skipped''"

record outcome =
  o_number :: string
  o_status :: status
  o_reason :: "string option"

text \<open>The local variables of the job, lines 211-215.\<close>

record tally =
  report :: "outcome list"
  successCount :: nat
  failCount :: nat
  skippedCount :: nat

definition empty_tally :: tally where
  "empty_tally = \<lparr>report = [], successCount = 0, failCount = 0, skippedCount = 0\<rparr>"

definition push_skipped :: "string \<Rightarrow> tally \<Rightarrow> tally" where
  "push_skipped number t =
     t\<lparr>report := report t @
          [\<lparr>o_number = number, o_status = Skipped, o_reason = Some ''Not registered on WhatsApp''\<rparr>],
       skippedCount := skippedCount t + 1\<rparr>"

definition push_sent :: "string \<Rightarrow> status \<Rightarrow> tally \<Rightarrow> tally" where
  "push_sent number s t =
     t\<lparr>report := report t @ [\<lparr>o_number = number, o_status = s, o_reason = None\<rparr>],
       successCount := successCount t + 1\<rparr>"

definition push_failed :: "string \<Rightarrow> string \<Rightarrow> tally \<Rightarrow> tally" where
  "push_failed number reason t =
     t\<lparr>report := report t @ [\<lparr>o_number = number, o_status = Failed, o_reason = Some reason\<rparr>],
       failCount := failCount t + 1\<rparr>"

text \<open>
  The message of the \<^verbatim>\<open>TypeError\<close> that the destructuring
  \<^verbatim>\<open>const [check] = await sock.onWhatsApp(jid)\<close> throws when the awaited value is
  \<^verbatim>\<open>undefined\<close>, as Node words it.
\<close>

definition not_iterable :: string where
  "not_iterable = ''(intermediate value) is not iterable''"

text \<open>\<^verbatim>\<open>await delay(500)\<close>, line 265.\<close>

definition pace :: "server \<times> tally \<Rightarrow> server \<times> tally" where
  "pace p = (log_call (Delay 500) (fst p), snd p)"

text \<open>
  The inner \<^verbatim>\<open>try\<close> with its \<^verbatim>\<open>catch\<close>, lines 234-256: the first attempt and,
  when asked for, the one retry after \<^verbatim>\<open>delay(2000)\<close>.
\<close>

definition attempt :: "env \<Rightarrow> nat \<Rightarrow> string \<Rightarrow> bool \<Rightarrow> string \<Rightarrow> string \<Rightarrow> server \<times> tally \<Rightarrow> server \<times> tally" where
  "attempt E h message retryFailed number jid p =
     (case send_message E h jid (TextMsg (Some message)) (fst p) of
        (st2, Inr ack) \<Rightarrow> (st2, push_sent number Sent (snd p))
      | (st2, Inl sendErr) \<Rightarrow>
          if retryFailed
          then (case send_message E h jid (TextMsg (Some message)) (log_call (Delay 2000) st2) of
                  (st4, Inr ack) \<Rightarrow> (st4, push_sent number SentRetry (snd p))
                | (st4, Inl retryErr) \<Rightarrow>
                    (st4, push_failed number (''Retry failed: '' @ retryErr) (snd p)))
          else (st2, push_failed number sendErr (snd p)))"

text \<open>
  One iteration of the loop, lines 220-265.  The skip branch leaves the iteration with
  \<^verbatim>\<open>continue\<close>, which passes over the delay at the end of the loop body; every other
  path reaches it.
\<close>

definition bulk_step :: "env \<Rightarrow> nat \<Rightarrow> string \<Rightarrow> bool \<Rightarrow> string \<Rightarrow> server \<times> tally \<Rightarrow> server \<times> tally" where
  "bulk_step E h message retryFailed number p =
     (let jid = jid_of number
      in case query_exists E h jid (fst p) of
           (st1, Inl err) \<Rightarrow> pace (st1, push_failed number err (snd p))
         | (st1, Inr None) \<Rightarrow> pace (st1, push_failed number not_iterable (snd p))
         | (st1, Inr (Some checks)) \<Rightarrow>
             if \<not> first_exists (Some checks) then (st1, push_skipped number (snd p))
             else pace (attempt E h message retryFailed number jid (st1, snd p)))"

text \<open>
  An element of the array \<^verbatim>\<open>numbers\<close> of the request body.  The handler checks
  only that \<^verbatim>\<open>numbers\<close> is a non-empty array (line 199), so an element is a string
  or something else; \<open>JOther\<close> is a JSON value that has no \<^verbatim>\<open>includes\<close> method (a
  number, a boolean, \<^verbatim>\<open>null\<close> or an object).  Array elements, which have an
  \<^verbatim>\<open>includes\<close> of their own and pass line 221 without throwing, are not covered.
\<close>

datatype jsvalue = JString string | JOther

text \<open>
  The \<^verbatim>\<open>for\<close> loop over \<^verbatim>\<open>numbers\<close>, in input order.  Line 221 calls
  \<^verbatim>\<open>number.includes\<close> before the \<^verbatim>\<open>try\<close> block of the iteration is entered: on
  an element without that method it throws a \<^verbatim>\<open>TypeError\<close> that nothing in the
  handler catches, and the job ends there without a response.
\<close>

fun bulk_loop :: "env \<Rightarrow> nat \<Rightarrow> string \<Rightarrow> bool \<Rightarrow> jsvalue list \<Rightarrow> server \<times> tally \<Rightarrow> (server \<times> handler_error) + (server \<times> tally)" where
  "bulk_loop E h message retryFailed [] p = Inr p"
| "bulk_loop E h message retryFailed (JString number # numbers) p =
     bulk_loop E h message retryFailed numbers (bulk_step E h message retryFailed number p)"
| "bulk_loop E h message retryFailed (JOther # numbers) p = Inl (fst p, TypeError)"

record summary =
  sum_total :: nat
  sum_processed :: nat
  sum_sent :: nat
  sum_failed :: nat
  sum_skipped :: nat

datatype bulk_response =
    InvalidRequest
  | BulkNotConnected
  | BulkDone summary "outcome list"

text \<open>
  \<^verbatim>\<open>POST /send-bulk/:sessionId\<close>, lines 195-281.  The body's \<^verbatim>\<open>numbers\<close> is an
  array, \<^verbatim>\<open>message\<close> is taken to be a string or absent, and \<^verbatim>\<open>retryFailed\<close> is
  read by its truthiness.  \<open>Inr\<close> carries the response sent; \<open>Inl\<close> is the handler
  throwing, in which case no response is sent.
\<close>

definition send_bulk :: "env \<Rightarrow> session_id \<Rightarrow> jsvalue list \<Rightarrow> string option \<Rightarrow> bool \<Rightarrow> server \<Rightarrow> (server \<times> handler_error) + (server \<times> bulk_response)" where
  "send_bulk E sid numbers message retryFailed st =
     (case message of
        None \<Rightarrow> Inr (st, InvalidRequest)
      | Some msg \<Rightarrow>
          if numbers = [] \<or> msg = [] then Inr (st, InvalidRequest)
          else (case sessions st sid of
                  None \<Rightarrow> Inr (st, BulkNotConnected)
                | Some s \<Rightarrow>
                    if \<not> isConnected s then Inr (st, BulkNotConnected)
                    else (case bulk_loop E (sock s) msg retryFailed numbers (st, empty_tally) of
                            Inl thrown \<Rightarrow> Inl thrown
                          | Inr (st', t) \<Rightarrow>
                              Inr (st', BulkDone
                                 \<lparr>sum_total = length numbers,
                                  sum_processed = successCount t + failCount t + skippedCount t,
                                  sum_sent = successCount t,
                                  sum_failed = failCount t,
                                  sum_skipped = skippedCount t\<rparr>
                                 (report t)))))"



text \<open>Reading the call log and the report.\<close>

fun is_send :: "call \<Rightarrow> bool" where
  "is_send (SendMessage h jid p) = True"
| "is_send c = False"

definition send_attempts :: "call list \<Rightarrow> nat" where
  "send_attempts cs = length (filter is_send cs)"



section \<open>Sample collaborators and states for the example runs\<close>

text \<open>
  A protocol client that knows the addresses in \<open>registered\<close>, whose existence query
  throws for the addresses in \<open>broken\<close>, and whose first \<open>failures\<close> send attempts
  throw; and a server with one connected session.
\<close>

definition sample_env :: "string list \<Rightarrow> string list \<Rightarrow> nat \<Rightarrow> env" where
  "sample_env registered broken failures =
     \<lparr>makeWASocket = (\<lambda>st sid. Inr (length (calls st))),
      onWhatsApp = (\<lambda>st h jid.
        if jid \<in> set broken then Inl ''Connection Closed''
        else Inr (Some [jid \<in> set registered])),
      sendMessage = (\<lambda>st h jid p.
        if send_attempts (calls st) < failures then Inl ''Timed Out'' else Inr ''ack''),
      axios_get = (\<lambda>st url. Inr [])\<rparr>"

text \<open>A tracker in which session \<open>s\<close> has sent ten messages, at 0 to 9 ms.\<close>

definition full_tracker :: tracker where
  "full_tracker = [''s'' \<mapsto> [0, 1, 2, 3, 4, 5, 6, 7, 8, 9]]"

definition sample_server :: server where
  "sample_server =
     \<lparr>sessions = [''s1'' \<mapsto> \<lparr>sock = 7, isConnected = True, currentQR = []\<rparr>],
      messageTracker = Map.empty,
      auth_dirs = {''s1''},
      qr_files = [''s1'' \<mapsto> ''2@abc''],
      calls = []\<rparr>"

section \<open>Properties of the rate limiter\<close>

subsection \<open>Auxiliary facts\<close>

lemma ceil_div_1000_ceiling: "ceil_div_1000 x = \<lceil>real_of_int x / 1000\<rceil>"
proof -
  have "\<lceil>real_of_int x / 1000\<rceil> = - \<lfloor>real_of_int (- x) / real_of_int 1000\<rfloor>"
    by (simp add: ceiling_def)
  also have "\<dots> = - ((- x) div 1000)"
    by (simp only: floor_divide_of_int_eq)
  finally show ?thesis by (simp add: ceil_div_1000_def)
qed

lemma prune_alt: "prune now w = filter (\<lambda>ts. now - TIME_WINDOW < ts) w"
  unfolding prune_def by (rule filter_cong) auto

lemma retryAfter_nonempty: "w \<noteq> [] \<Longrightarrow> retryAfter now w = Some \<lceil>real_of_int (TIME_WINDOW - (now - hd w)) / 1000\<rceil>"
  by (cases w) (simp_all add: retryAfter_def ceil_div_1000_ceiling)

lemma length_prune_le: "length (prune now w) \<le> length w"
  by (simp add: prune_def)

lemma window_of_upd: "window_of (mt(sid \<mapsto> w)) sid' = (if sid' = sid then w else window_of mt sid')"
  by (simp add: window_of_def)

lemma window_of_forget: "window_of (mt(sid := None)) sid' = (if sid' = sid then [] else window_of mt sid')"
  by (simp add: window_of_def)

lemma window_of_empty: "window_of Map.empty sid = []"
  by (simp add: window_of_def)

lemma rate_limit_window:
  "window_of (fst (rate_limit mt sid now)) sid' =
     (if sid' = sid
      then (if length (prune now (window_of mt sid)) < MESSAGE_LIMIT
            then prune now (window_of mt sid) @ [now] else prune now (window_of mt sid))
      else window_of mt sid')"
  by (simp add: rate_limit_def Let_def window_of_upd)

lemma rate_limit_outcome:
  "snd (rate_limit mt sid now) =
     (if length (prune now (window_of mt sid)) < MESSAGE_LIMIT then Admitted
      else Rejected (retryAfter now (prune now (window_of mt sid))))"
  by (simp add: rate_limit_def Let_def)

lemma apply_op_bounded:
  assumes "\<And>s. length (window_of mt s) \<le> MESSAGE_LIMIT"
  shows "length (window_of (apply_op mt op) s) \<le> MESSAGE_LIMIT"
proof (cases op)
  case (Check sid now)
  have "length (prune now (window_of mt sid)) \<le> MESSAGE_LIMIT"
    using length_prune_le [of now "window_of mt sid"] assms [of sid] by linarith
  then show ?thesis
    using Check assms [of s] by (simp add: rate_limit_window)
next
  case (Forget sid)
  then show ?thesis using assms [of s] by (simp add: window_of_forget)
qed

lemma apply_ops_bounded:
  "length (window_of (apply_ops Map.empty ops) s) \<le> MESSAGE_LIMIT"
proof (induction ops arbitrary: s rule: rev_induct)
  case Nil
  then show ?case by (simp add: apply_ops_def window_of_empty)
next
  case (snoc op ops)
  have "apply_ops Map.empty (ops @ [op]) = apply_op (apply_ops Map.empty ops) op"
    by (simp add: apply_ops_def)
  then show ?case using apply_op_bounded [of "apply_ops Map.empty ops" op s] snoc.IH by simp
qed

lemma ceil_div_1000_bounds:
  "x \<le> 1000 * ceil_div_1000 x" "0 < x \<Longrightarrow> 1 \<le> ceil_div_1000 x"
  unfolding ceil_div_1000_def by linarith+

lemma run_checks_Cons:
  "run_checks mt sid (now # nows) =
     (fst (run_checks (fst (rate_limit mt sid now)) sid nows),
      snd (rate_limit mt sid now) # snd (run_checks (fst (rate_limit mt sid now)) sid nows))"
  by (simp split: prod.splits)

lemma run_checks_snoc:
  "run_checks mt sid (nows @ [now]) =
     (fst (rate_limit (fst (run_checks mt sid nows)) sid now),
      snd (run_checks mt sid nows) @ [snd (rate_limit (fst (run_checks mt sid nows)) sid now)])"
  by (induction nows arbitrary: mt) (simp_all add: run_checks_Cons del: run_checks.simps(2))

lemma length_run_checks: "length (snd (run_checks mt sid nows)) = length nows"
  by (induction nows arbitrary: mt) (simp_all add: run_checks_Cons del: run_checks.simps(2))

lemma prune_Nil: "prune T [] = []"
  by (simp add: prune_def)

lemma admitted_times_snoc:
  "admitted_times mt sid (nows @ [now]) =
     admitted_times mt sid nows @
       (if snd (rate_limit (fst (run_checks mt sid nows)) sid now) = Admitted then [now] else [])"
  by (simp add: admitted_times_def run_checks_snoc length_run_checks)

lemma admitted_times_Nil: "admitted_times mt sid [] = []"
  by (simp add: admitted_times_def)

lemma prune_prune:
  "now \<le> T \<Longrightarrow> prune T (prune now w) = prune T w"
  unfolding prune_def filter_filter by (rule filter_cong) auto

lemma prune_append: "prune T (xs @ ys) = prune T xs @ prune T ys"
  by (simp add: prune_def)

lemma prune_self: "now \<le> T \<Longrightarrow> prune T [now] = (if T - now < TIME_WINDOW then [now] else [])"
  by (simp add: prune_def)

text \<open>The stored window and the admitted call times agree on everything a later check can see.\<close>

lemma window_tracks_admitted:
  assumes "sorted nows" and "window_of mt sid = []" and "\<forall>x \<in> set nows. x \<le> T"
  shows "prune T (window_of (fst (run_checks mt sid nows)) sid) = prune T (admitted_times mt sid nows)"
  using assms
proof (induction nows arbitrary: T rule: rev_induct)
  case Nil
  then show ?case by (simp add: admitted_times_Nil)
next
  case (snoc now nows)
  let ?mt = "fst (run_checks mt sid nows)"
  let ?w = "window_of ?mt sid"
  from snoc.prems have srt: "sorted nows" and le: "\<forall>x \<in> set nows. x \<le> now" and nT: "now \<le> T"
    by (auto simp: sorted_append)
  have ih: "prune now ?w = prune now (admitted_times mt sid nows)"
    using snoc.IH [OF srt snoc.prems(2) le] .
  have "prune T (prune now ?w) = prune T (admitted_times mt sid nows)"
    using ih prune_prune [OF nT] by simp
  then show ?case
    by (simp add: run_checks_snoc admitted_times_snoc rate_limit_window rate_limit_outcome
        prune_append prune_self [OF nT] prune_Nil)
qed

lemma filter_length_mono:
  "(\<And>x. x \<in> set xs \<Longrightarrow> P x \<Longrightarrow> Q x) \<Longrightarrow> length (filter P xs) \<le> length (filter Q xs)"
  by (induction xs) auto

lemma admitted_in_window_bound:
  assumes "sorted nows" and "window_of mt sid = []"
  shows "length (filter (\<lambda>a. t - TIME_WINDOW < a \<and> a \<le> t) (admitted_times mt sid nows)) \<le> MESSAGE_LIMIT"
  using assms
proof (induction nows rule: rev_induct)
  case Nil
  then show ?case by (simp add: admitted_times_Nil)
next
  case (snoc now nows)
  let ?adm = "admitted_times mt sid nows"
  let ?I = "\<lambda>a. t - TIME_WINDOW < a \<and> a \<le> t"
  from snoc.prems have srt: "sorted nows" and le: "\<forall>x \<in> set nows. x \<le> now"
    by (auto simp: sorted_append)
  have ih: "length (filter ?I ?adm) \<le> MESSAGE_LIMIT"
    using snoc.IH [OF srt snoc.prems(2)] .
  show ?case
  proof (cases "snd (rate_limit (fst (run_checks mt sid nows)) sid now) = Admitted \<and> ?I now")
    case False
    then show ?thesis using ih by (auto simp: admitted_times_snoc)
  next
    case True
    then have room: "length (prune now (window_of (fst (run_checks mt sid nows)) sid)) < MESSAGE_LIMIT"
      by (auto simp: rate_limit_outcome split: if_splits)
    have "length (filter ?I ?adm) \<le> length (prune now ?adm)"
      unfolding prune_def using True by (intro filter_length_mono) auto
    also have "\<dots> < MESSAGE_LIMIT"
      using room window_tracks_admitted [OF srt snoc.prems(2) le] by simp
    finally show ?thesis using True by (simp add: admitted_times_snoc)
  qed
qed

lemma run_checks_window_bound:
  assumes "length (window_of mt sid) \<le> MESSAGE_LIMIT"
  shows "length (window_of (fst (run_checks mt sid nows)) sid) \<le> MESSAGE_LIMIT"
proof (induction nows rule: rev_induct)
  case Nil
  then show ?case using assms by simp
next
  case (snoc now nows)
  have "length (prune now (window_of (fst (run_checks mt sid nows)) sid)) \<le> MESSAGE_LIMIT"
    using length_prune_le [of now "window_of (fst (run_checks mt sid nows)) sid"] snoc.IH by linarith
  then show ?case by (simp add: run_checks_snoc rate_limit_window)
qed

lemma run_checks_window_fresh:
  "ts \<in> set (window_of (fst (run_checks mt sid (nows @ [now]))) sid) \<Longrightarrow> now - TIME_WINDOW < ts"
  by (auto simp: run_checks_snoc rate_limit_window prune_def TIME_WINDOW_def split: if_splits)

lemma rate_limit_window_set:
  "set (window_of (fst (rate_limit mt sid now)) sid) \<subseteq> insert now (set (window_of mt sid))"
  by (auto simp: rate_limit_window prune_def)

lemma run_checks_window_set:
  "set (window_of (fst (run_checks mt sid nows)) sid) \<subseteq> set (window_of mt sid) \<union> set nows"
proof (induction nows rule: rev_induct)
  case Nil
  then show ?case by simp
next
  case (snoc now nows)
  then show ?case
    using rate_limit_window_set [of "fst (run_checks mt sid nows)" sid now]
    by (auto simp: run_checks_snoc)
qed

lemma sorted_le_last: "sorted xs \<Longrightarrow> x \<in> set xs \<Longrightarrow> x \<le> last xs"
  by (induction xs rule: rev_induct) (auto simp: sorted_append)

subsection \<open>The admission check\<close>

text \<open>
  Claim C1, as the specification words it, does not hold at the window boundary: a
  timestamp that is exactly \<open>windowDuration\<close> old is not older than
  \<open>now - windowDuration\<close>, yet the code removes it.  With the ten timestamps
  \<open>0 \<dots> 9\<close> recorded and a call at \<open>now = 600000\<close>, the code prunes \<open>0\<close> and admits,
  while the worded check keeps all ten and rejects with a retry delay of \<open>0\<close>.
\<close>

theorem rate_limit_boundary_counterexample:
  "snd (rate_limit full_tracker ''s'' 600000) = Admitted \<and>
   snd (spec_tryAdmit full_tracker ''s'' 600000) = Rejected (Some 0)"
  by (simp add: rate_limit_def spec_tryAdmit_def spec_prune_def prune_def window_of_def
      MESSAGE_LIMIT_def TIME_WINDOW_def Let_def full_tracker_def)

text \<open>
  Claim C1, amended: for every session id and call time \<open>now\<close>, the admission check
  first removes from that id's window every timestamp whose age \<open>now - ts\<close> is at
  least the window duration of 10 minutes (it keeps exactly those with
  \<open>now - 600000 < ts\<close>); then, if the pruned window is strictly shorter than the
  limit 10, it appends \<open>now\<close> and admits, and otherwise it stores the pruned window
  and rejects with
  \<open>retryAfterSeconds = ceil ((windowDuration - (now - oldest)) / 1000)\<close>, where
  \<open>oldest\<close> is the first timestamp left after pruning.
\<close>

theorem rate_limit_amended:
  "rate_limit mt sid now =
     (let w = filter (\<lambda>ts. now - 600000 < ts) (window_of mt sid) in
      if length w < 10
      then (mt(sid \<mapsto> w @ [now]), Admitted)
      else (mt(sid \<mapsto> w),
            Rejected (Some \<lceil>real_of_int (600000 - (now - hd w)) / 1000\<rceil>)))"
proof -
  let ?w = "prune now (window_of mt sid)"
  have w: "?w = filter (\<lambda>ts. now - 600000 < ts) (window_of mt sid)"
    by (simp add: prune_alt TIME_WINDOW_def)
  show ?thesis
  proof (cases "length ?w < 10")
    case True
    then show ?thesis
      using w by (simp add: rate_limit_def Let_def MESSAGE_LIMIT_def)
  next
    case False
    then have "?w \<noteq> []" by auto
    from retryAfter_nonempty [OF this, of now] False show ?thesis
      using w by (simp add: rate_limit_def Let_def MESSAGE_LIMIT_def TIME_WINDOW_def)
  qed
qed

theorem rate_limit_amended_witness:
  "rate_limit [''s'' \<mapsto> [0, 1, 2, 3, 4, 5, 6, 7, 8, 9]] ''s'' 600000 =
     ([''s'' \<mapsto> [1, 2, 3, 4, 5, 6, 7, 8, 9, 600000]], Admitted) \<and>
   rate_limit [''s'' \<mapsto> [0, 1, 2, 3, 4, 5, 6, 7, 8, 9]] ''s'' 5000 =
     ([''s'' \<mapsto> [0, 1, 2, 3, 4, 5, 6, 7, 8, 9]], Rejected (Some 595))"
  using rate_limit_amended [of "[''s'' \<mapsto> [0, 1, 2, 3, 4, 5, 6, 7, 8, 9]]" "''s''" 600000]
    rate_limit_amended [of "[''s'' \<mapsto> [0, 1, 2, 3, 4, 5, 6, 7, 8, 9]]" "''s''" 5000]
  by (simp add: window_of_def)

subsection \<open>Waiting out a rejection\<close>

text \<open>
  Claim C3: in every tracker the server can reach from its empty start by admission
  checks (on any ids, at any times) and window deletions, a rejected check returns a
  retry delay \<open>k \<ge> 0\<close> seconds, and a check of the same id made \<open>k\<close> seconds
  later (or any \<open>d\<close> milliseconds after that), with nothing in between, is admitted:
  the oldest timestamp is then at least the window duration old and is pruned, which
  leaves fewer than ten.
\<close>

theorem retry_after_suffices:
  assumes rej: "rate_limit (apply_ops Map.empty ops) sid now = (mt', Rejected r)"
  shows "\<exists>k. r = Some k \<and> 0 \<le> k \<and>
              snd (rate_limit mt' sid (now + 1000 * k + int d)) = Admitted"
proof -
  let ?mt = "apply_ops Map.empty ops"
  let ?w = "prune now (window_of ?mt sid)"
  have full: "\<not> length ?w < MESSAGE_LIMIT"
    using rej rate_limit_outcome [of ?mt sid now] by (auto split: if_splits)
  have r: "r = retryAfter now ?w"
    using rej rate_limit_outcome [of ?mt sid now] full by simp
  have mt': "window_of mt' sid = ?w"
    using rej rate_limit_window [of ?mt sid now sid] full by simp
  have le: "length ?w \<le> MESSAGE_LIMIT"
    using length_prune_le [of now "window_of ?mt sid"] apply_ops_bounded [of ops sid] by linarith
  from full obtain ts0 rest where w: "?w = ts0 # rest"
    by (cases ?w) (auto simp: MESSAGE_LIMIT_def)
  have "ts0 \<in> set ?w" using w by simp
  then have young: "now - ts0 < TIME_WINDOW" by (simp add: prune_def)
  define k where "k = ceil_div_1000 (TIME_WINDOW - (now - ts0))"
  have rk: "r = Some k" using r w by (simp add: retryAfter_def k_def)
  have k1: "1 \<le> k" and kx: "TIME_WINDOW - (now - ts0) \<le> 1000 * k"
    using young ceil_div_1000_bounds [of "TIME_WINDOW - (now - ts0)"] by (simp_all add: k_def)
  let ?now' = "now + 1000 * k + int d"
  have gone: "\<not> ?now' - ts0 < TIME_WINDOW" using kx by linarith
  have "prune ?now' ?w = prune ?now' rest"
    using w gone by (simp add: prune_def)
  then have "length (prune ?now' ?w) \<le> length rest"
    using length_prune_le [of ?now' rest] by simp
  also have "\<dots> < MESSAGE_LIMIT" using le w by simp
  finally have "snd (rate_limit mt' sid ?now') = Admitted"
    using rate_limit_outcome [of mt' sid ?now'] mt' by simp
  with rk k1 show ?thesis by auto
qed

theorem retry_after_suffices_witness:
  "rate_limit (apply_ops Map.empty (map (Check ''s'') [0, 1, 2, 3, 4, 5, 6, 7, 8, 9])) ''s'' 5000 =
     ([''s'' \<mapsto> [0, 1, 2, 3, 4, 5, 6, 7, 8, 9]], Rejected (Some 595)) \<and>
   snd (rate_limit [''s'' \<mapsto> [0, 1, 2, 3, 4, 5, 6, 7, 8, 9]] ''s'' 600000) = Admitted"
proof -
  have h: "rate_limit (apply_ops Map.empty (map (Check ''s'') [0, 1, 2, 3, 4, 5, 6, 7, 8, 9])) ''s'' 5000 =
     ([''s'' \<mapsto> [0, 1, 2, 3, 4, 5, 6, 7, 8, 9]], Rejected (Some 595))"
    by (simp add: apply_ops_def rate_limit_def window_of_def prune_def retryAfter_def
        ceil_div_1000_def MESSAGE_LIMIT_def TIME_WINDOW_def Let_def)
  from retry_after_suffices [OF h, of 0] show ?thesis using h by simp
qed

subsection \<open>The sliding window invariant\<close>

text \<open>
  Claim C4: for every session id whose window starts empty and every sequence of
  admission checks with non-decreasing call times, the admitted checks whose call times
  lie in a trailing interval \<open>(t - windowDuration, t]\<close> of the window duration number at
  most the limit, whatever \<open>t\<close> is; and after the checks the stored window holds at
  most the limit many timestamps, each of them younger than the window duration at the
  time \<open>now\<close> of the last check and not later than it.  (The interval is the one the
  code prunes by: a timestamp exactly \<open>windowDuration\<close> old has left it.)
\<close>

theorem sliding_window_bound:
  assumes "sorted nows" and "window_of mt sid = []"
  shows "length (filter (\<lambda>a. t - TIME_WINDOW < a \<and> a \<le> t) (admitted_times mt sid nows))
           \<le> MESSAGE_LIMIT
       \<and> length (window_of (fst (run_checks mt sid nows)) sid) \<le> MESSAGE_LIMIT
       \<and> (\<forall>ts \<in> set (window_of (fst (run_checks mt sid nows)) sid).
            nows \<noteq> [] \<and> last nows - TIME_WINDOW < ts \<and> ts \<le> last nows)"
proof -
  have "nows \<noteq> [] \<and> last nows - TIME_WINDOW < ts \<and> ts \<le> last nows"
    if ts: "ts \<in> set (window_of (fst (run_checks mt sid nows)) sid)" for ts
  proof (cases nows rule: rev_cases)
    case Nil
    with ts assms(2) show ?thesis by simp
  next
    case (snoc pre now)
    have "ts \<in> set nows"
      using ts run_checks_window_set [of mt sid nows] assms(2) by auto
    then have "ts \<le> last nows" using sorted_le_last [OF assms(1)] by simp
    with snoc ts run_checks_window_fresh [of ts mt sid pre now] show ?thesis by simp
  qed
  moreover have "length (window_of (fst (run_checks mt sid nows)) sid) \<le> MESSAGE_LIMIT"
    using run_checks_window_bound [of mt sid nows] assms(2) by simp
  ultimately show ?thesis
    using admitted_in_window_bound [OF assms, of t] by blast
qed

theorem sliding_window_bound_witness:
  "sorted [0, 1, 2, 3, 4, 5, 6, 7, 8, 9, 10, 600000 :: int] \<and> window_of Map.empty ''s'' = [] \<and>
   length (filter (\<lambda>a. 600000 - TIME_WINDOW < a \<and> a \<le> 600000)
     (admitted_times Map.empty ''s'' [0, 1, 2, 3, 4, 5, 6, 7, 8, 9, 10, 600000])) \<le> MESSAGE_LIMIT \<and>
   length (window_of (fst (run_checks Map.empty ''s'' [0, 1, 2, 3, 4, 5, 6, 7, 8, 9, 10, 600000])) ''s'')
     \<le> MESSAGE_LIMIT"
proof -
  have h1: "sorted [0, 1, 2, 3, 4, 5, 6, 7, 8, 9, 10, 600000 :: int]" by simp
  have h2: "window_of Map.empty ''s'' = []" by (simp add: window_of_def)
  from sliding_window_bound [OF h1 h2, of 600000] h1 h2 show ?thesis by blast
qed

text \<open>
  The run used above, evaluated: the eleventh call at 10 ms is rejected, the call at
  600000 ms is admitted because the timestamp 0 has then left the window.
\<close>

lemma admitted_times_example:
  "admitted_times Map.empty ''s'' [0, 1, 2, 3, 4, 5, 6, 7, 8, 9, 10, 600000] =
     [0, 1, 2, 3, 4, 5, 6, 7, 8, 9, 600000]"
  by (simp add: admitted_times_def rate_limit_def window_of_def prune_def
      MESSAGE_LIMIT_def TIME_WINDOW_def Let_def)

section \<open>Properties of the single send\<close>

subsection \<open>Auxiliary facts\<close>

lemma respond_eq:
  "respond (st, x) = (st, case x of Inr d \<Rightarrow> MessageSent d | Inl e \<Rightarrow> SendFailed e)"
  by (cases x) simp_all

lemma deliver_tracker: "messageTracker (fst (deliver E h jid req st)) = messageTracker st"
  by (simp add: deliver_def query_exists_def send_message_def fetch_def log_call_def
      respond_eq split: sum.splits option.splits prod.splits)

lemma deliver_status: "send_status (snd (deliver E h jid req st)) \<in> {404, 500, 200}"
  by (simp add: deliver_def query_exists_def send_message_def fetch_def
      respond_eq split: sum.splits option.splits prod.splits)

lemma rate_limit_Admitted_window:
  assumes "rate_limit mt0 sid now = (mt, Admitted)"
  shows "window_of mt sid = prune now (window_of mt0 sid) @ [now]"
  using assms by (auto simp: rate_limit_def Let_def window_of_upd split: if_splits)

lemma jid_of_111: "jid_of ''111'' = ''111@s.whatsapp.net''"
  by (simp add: jid_of_def)

lemma jid_of_222: "jid_of ''222'' = ''222@s.whatsapp.net''"
  by (simp add: jid_of_def)

lemma jid_of_full: "jid_of ''111@s.whatsapp.net'' = ''111@s.whatsapp.net''"
  by (simp add: jid_of_def)

subsection \<open>An unregistered recipient\<close>

text \<open>
  Claim C5: in a single send on a connected session that passes the rate admission, the
  existence query is put to the protocol client in a server state whose rate window
  already ends with the admission timestamp \<open>now\<close>; if the answer reports the recipient
  non-existent, the call answers 404 (number not registered), the only collaborator call
  made is the query (no send is attempted), and the tracker is left with the timestamp
  in it.
\<close>

theorem send_unregistered_consumes_slot:
  assumes "sessions st sid = Some s" and "isConnected s"
    and "rate_limit (messageTracker st) sid now = (mt, Admitted)"
    and "onWhatsApp E (st\<lparr>messageTracker := mt\<rparr>) (sock s) (jid_of (req_number req)) = Inr result"
    and "\<not> first_exists result"
  shows "send E sid req now st =
           (st\<lparr>messageTracker := mt,
               calls := calls st @ [OnWhatsApp (sock s) (jid_of (req_number req))]\<rparr>,
            NumberNotRegistered)
       \<and> send_status (snd (send E sid req now st)) = 404
       \<and> window_of mt sid = prune now (window_of (messageTracker st) sid) @ [now]"
  using assms rate_limit_Admitted_window [OF assms(3)]
  by (simp add: send_def deliver_def query_exists_def log_call_def)

theorem send_unregistered_consumes_slot_witness:
  "send (sample_env [] [] 0) ''s1''
     \<lparr>req_number = ''111'', req_message = Some ''hi'', req_file = None, req_image = None\<rparr>
     1000 sample_server =
   (sample_server\<lparr>messageTracker := [''s1'' \<mapsto> [1000]],
                  calls := [OnWhatsApp 7 ''111@s.whatsapp.net'']\<rparr>,
    NumberNotRegistered)"
proof -
  let ?s = "\<lparr>sock = 7, isConnected = True, currentQR = []\<rparr>"
  let ?req = "\<lparr>req_number = ''111'', req_message = Some ''hi'', req_file = None, req_image = None\<rparr>"
  have h1: "sessions sample_server ''s1'' = Some ?s" by (simp add: sample_server_def)
  have h2: "isConnected ?s" by simp
  have h3: "rate_limit (messageTracker sample_server) ''s1'' 1000 = ([''s1'' \<mapsto> [1000]], Admitted)"
    by (simp add: sample_server_def rate_limit_def window_of_def prune_def MESSAGE_LIMIT_def Let_def)
  have h4: "onWhatsApp (sample_env [] [] 0) (sample_server\<lparr>messageTracker := [''s1'' \<mapsto> [1000]]\<rparr>)
              (sock ?s) (jid_of (req_number ?req)) = Inr (Some [False])"
    by (simp add: sample_env_def)
  have h5: "\<not> first_exists (Some [False])" by (simp add: first_exists_def)
  from send_unregistered_consumes_slot [OF h1 h2 h3 h4 h5] show ?thesis
    by (simp add: jid_of_111 sample_server_def)
qed

subsection \<open>No roll-back of the admission timestamp\<close>

text \<open>
  Claim C10: in a single send on a connected session that passes the rate admission, with
  any behaviour of the collaborators, the call answers 404, 500 or 200 and leaves the
  tracker exactly as the admission left it: the session's window is the pruned window
  followed by the admission timestamp \<open>now\<close>.  Nothing on the paths after the admission
  writes to the tracker.  (The handler is taken as one uninterrupted run.)
\<close>

theorem send_never_rolls_back:
  assumes "sessions st sid = Some s" and "isConnected s"
    and "rate_limit (messageTracker st) sid now = (mt, Admitted)"
  shows "messageTracker (fst (send E sid req now st)) = mt
       \<and> window_of mt sid = prune now (window_of (messageTracker st) sid) @ [now]
       \<and> send_status (snd (send E sid req now st)) \<in> {404, 500, 200}"
  using assms rate_limit_Admitted_window [OF assms(3)] deliver_status
  by (simp add: send_def deliver_tracker)

theorem send_never_rolls_back_witness:
  "messageTracker (fst (send (sample_env [''111@s.whatsapp.net''] [] 1) ''s1''
     \<lparr>req_number = ''111'', req_message = Some ''hi'', req_file = None, req_image = None\<rparr>
     1000 sample_server)) = [''s1'' \<mapsto> [1000]] \<and>
   snd (send (sample_env [''111@s.whatsapp.net''] [] 1) ''s1''
     \<lparr>req_number = ''111'', req_message = Some ''hi'', req_file = None, req_image = None\<rparr>
     1000 sample_server) = SendFailed ''Timed Out''"
proof -
  let ?s = "\<lparr>sock = 7, isConnected = True, currentQR = []\<rparr>"
  have h1: "sessions sample_server ''s1'' = Some ?s" by (simp add: sample_server_def)
  have h2: "isConnected ?s" by simp
  have h3: "rate_limit (messageTracker sample_server) ''s1'' 1000 = ([''s1'' \<mapsto> [1000]], Admitted)"
    by (simp add: sample_server_def rate_limit_def window_of_def prune_def MESSAGE_LIMIT_def Let_def)
  have "snd (send (sample_env [''111@s.whatsapp.net''] [] 1) ''s1''
     \<lparr>req_number = ''111'', req_message = Some ''hi'', req_file = None, req_image = None\<rparr>
     1000 sample_server) = SendFailed ''Timed Out''"
    by (simp add: send_def deliver_def query_exists_def send_message_def log_call_def
        sample_env_def sample_server_def first_exists_def send_attempts_def jid_of_111
        rate_limit_def window_of_def prune_def MESSAGE_LIMIT_def Let_def)
  with send_never_rolls_back [OF h1 h2 h3] show ?thesis by simp
qed

section \<open>Properties of the bulk send\<close>

subsection \<open>Auxiliary facts\<close>

lemma bulk_step_query_throws:
  assumes "onWhatsApp E (fst p) h (jid_of number) = Inl err"
  shows "bulk_step E h message retryFailed number p =
           (log_call (Delay 500) (log_call (OnWhatsApp h (jid_of number)) (fst p)),
            push_failed number err (snd p))"
  using assms by (simp add: bulk_step_def query_exists_def pace_def Let_def)

lemma bulk_step_skip:
  assumes "onWhatsApp E (fst p) h (jid_of number) = Inr (Some checks)"
    and "\<not> first_exists (Some checks)"
  shows "bulk_step E h message retryFailed number p =
           (log_call (OnWhatsApp h (jid_of number)) (fst p), push_skipped number (snd p))"
  using assms by (simp add: bulk_step_def query_exists_def Let_def)

text \<open>Every path of an iteration other than the skip ends with the pacing delay.\<close>

lemma bulk_step_paced:
  assumes "\<And>checks. onWhatsApp E (fst p) h (jid_of number) = Inr (Some checks)
             \<Longrightarrow> first_exists (Some checks)"
  shows "\<exists>cs. calls (fst (bulk_step E h message retryFailed number p)) = cs @ [Delay 500]"
  using assms
  by (simp add: bulk_step_def attempt_def query_exists_def send_message_def pace_def Let_def
      log_call_def split: sum.splits option.splits)











lemmas bulk_eval =
  send_bulk_def bulk_step_def attempt_def query_exists_def send_message_def pace_def
  log_call_def first_exists_def push_sent_def push_failed_def push_skipped_def
  empty_tally_def send_attempts_def sample_env_def sample_server_def Let_def
  jid_of_111 jid_of_222

subsection \<open>Pacing\<close>

text \<open>
  Claim C2 says that the pacing delay of about 500 ms follows every recipient, also a
  skipped one.  The code does not do that: the skip branch leaves the iteration with
  \<^verbatim>\<open>continue\<close> and so passes over the delay that closes the loop body.  In the job
  below the first recipient is not registered and the second is: the second existence
  query follows the first with no delay between them, and the only delay of the job is
  the one after the send.
\<close>

theorem skip_is_not_paced:
  "send_bulk (sample_env [''222@s.whatsapp.net''] [] 0) ''s1'' [JString ''111'', JString ''222'']
     (Some ''hi'') False sample_server =
   Inr (sample_server\<lparr>calls :=
      [OnWhatsApp 7 ''111@s.whatsapp.net'',
       OnWhatsApp 7 ''222@s.whatsapp.net'',
       SendMessage 7 ''222@s.whatsapp.net'' (TextMsg (Some ''hi'')),
       Delay 500]\<rparr>,
    BulkDone \<lparr>sum_total = 2, sum_processed = 2, sum_sent = 1, sum_failed = 0, sum_skipped = 1\<rparr>
      [\<lparr>o_number = ''111'', o_status = Skipped, o_reason = Some ''Not registered on WhatsApp''\<rparr>,
       \<lparr>o_number = ''222'', o_status = Sent, o_reason = None\<rparr>])"
  by (simp add: bulk_eval)

subsection \<open>The retry policy\<close>



subsection \<open>The report and its summary\<close>




text \<open>
  The job of the witness, evaluated: the only send attempt for \<open>111\<close> throws and it is
  recorded as failed, \<open>222\<close> is not registered and is skipped, \<open>333\<close> is sent.
\<close>

lemma bulk_example:
  "send_bulk (sample_env [''111@s.whatsapp.net'', ''333@s.whatsapp.net''] [] 1) ''s1''
        (map JString [''111'', ''222'', ''333'']) (Some ''hi'') False sample_server =
   Inr (sample_server\<lparr>calls :=
          [OnWhatsApp 7 ''111@s.whatsapp.net'',
           SendMessage 7 ''111@s.whatsapp.net'' (TextMsg (Some ''hi'')),
           Delay 500,
           OnWhatsApp 7 ''222@s.whatsapp.net'',
           OnWhatsApp 7 ''333@s.whatsapp.net'',
           SendMessage 7 ''333@s.whatsapp.net'' (TextMsg (Some ''hi'')),
           Delay 500]\<rparr>,
        BulkDone \<lparr>sum_total = 3, sum_processed = 3, sum_sent = 1, sum_failed = 1, sum_skipped = 1\<rparr>
          [\<lparr>o_number = ''111'', o_status = Failed, o_reason = Some ''Timed Out''\<rparr>,
           \<lparr>o_number = ''222'', o_status = Skipped, o_reason = Some ''Not registered on WhatsApp''\<rparr>,
           \<lparr>o_number = ''333'', o_status = Sent, o_reason = None\<rparr>])"
  by (simp add: bulk_eval jid_of_def)

subsection \<open>A throwing existence query\<close>

text \<open>
  Claim C9: in a bulk job, if the existence query for a recipient throws, the recipient
  is recorded with status failed and the message of the error as reason (not as
  skipped), the failed counter goes up by one and the other counters stay, the pacing
  delay is made, and the loop goes on with the remaining recipients.
\<close>

theorem bulk_query_error_is_failed:
  assumes "onWhatsApp E st h (jid_of number) = Inl err"
  shows "bulk_loop E h message retryFailed (JString number # rest) (st, t) =
           bulk_loop E h message retryFailed rest
             (st\<lparr>calls := calls st @ [OnWhatsApp h (jid_of number), Delay 500]\<rparr>,
              t\<lparr>report := report t @
                   [\<lparr>o_number = number, o_status = Failed, o_reason = Some err\<rparr>],
                failCount := failCount t + 1\<rparr>)"
  using bulk_step_query_throws [of E "(st, t)" h number err message retryFailed] assms
  by (simp add: log_call_def push_failed_def)

theorem bulk_query_error_is_failed_witness:
  "bulk_loop (sample_env [''222@s.whatsapp.net''] [''111@s.whatsapp.net''] 0) 7 ''hi'' False
     [JString ''111'', JString ''222''] (sample_server, empty_tally) =
   Inr (sample_server\<lparr>calls :=
      [OnWhatsApp 7 ''111@s.whatsapp.net'', Delay 500,
       OnWhatsApp 7 ''222@s.whatsapp.net'',
       SendMessage 7 ''222@s.whatsapp.net'' (TextMsg (Some ''hi'')), Delay 500]\<rparr>,
    \<lparr>report =
       [\<lparr>o_number = ''111'', o_status = Failed, o_reason = Some ''Connection Closed''\<rparr>,
        \<lparr>o_number = ''222'', o_status = Sent, o_reason = None\<rparr>],
     successCount = 1, failCount = 1, skippedCount = 0\<rparr>)"
proof -
  have h: "onWhatsApp (sample_env [''222@s.whatsapp.net''] [''111@s.whatsapp.net''] 0)
             sample_server 7 (jid_of ''111'') = Inl ''Connection Closed''"
    by (simp add: sample_env_def jid_of_111)
  from bulk_query_error_is_failed [OF h, of "''hi''" False "[JString ''222'']" empty_tally]
  show ?thesis by (simp add: bulk_eval)
qed

section \<open>Properties of the session lifecycle\<close>

text \<open>
  When the event also carries a pairing code while the session record is absent, the
  handler throws at line 54, after writing the code file, and never reaches the
  \<^verbatim>\<open>close\<close> test.
\<close>

lemma qr_without_session_throws:
  assumes "sessions st sid = None" and "ev_qr ev = Some q" and "q \<noteq> []"
  shows "on_connection_update E loggedOut sid ev st =
           Inl (st\<lparr>qr_files := (qr_files st)(sid \<mapsto> q)\<rparr>, TypeError)"
  using assms by (simp add: on_connection_update_def on_qr_def Let_def)

text \<open>A close for any other reason starts the session again.\<close>

lemma other_close_restarts:
  assumes "ev_connection ev = Some Close" and "ev_statusCode ev \<noteq> Some loggedOut"
    and "ev_qr ev = None"
  shows "calls (case on_connection_update E loggedOut sid ev st of
                  Inl (st', e) \<Rightarrow> st' | Inr st' \<Rightarrow> st') = calls st @ [MakeWASocket sid]"
  using assms
  by (auto simp add: on_connection_update_def on_qr_def on_open_def on_close_def Let_def
      startSession_def log_call_def split: option.splits sum.splits)

text \<open>
  Claim C8: for every session id, when the connection handler receives a close event
  whose status code is the library's logged-out code (and the handler does not throw
  beforehand, that is, the event carries no pairing code or the session record exists),
  it completes and leaves no per-id state: the \<^verbatim>\<open>auth\<close> directory of the id and its
  pairing image are gone, and neither registry has an entry for the id.  The call log
  is unchanged, so no socket is opened: the session is not started again.
\<close>

theorem logged_out_teardown:
  assumes "ev_connection ev = Some Close" and "ev_statusCode ev = Some loggedOut"
    and "sessions st sid \<noteq> None \<or> \<not> (\<exists>q. ev_qr ev = Some q \<and> q \<noteq> [])"
  shows "\<exists>st'. on_connection_update E loggedOut sid ev st = Inr st' \<and>
           sid \<notin> auth_dirs st' \<and> qr_files st' sid = None \<and>
           sessions st' sid = None \<and> messageTracker st' sid = None \<and>
           calls st' = calls st"
  using assms
  by (auto simp add: on_connection_update_def on_qr_def on_open_def on_close_def Let_def
      split: option.splits)

theorem logged_out_teardown_witness:
  "on_connection_update (sample_env [] [] 0) 401 ''s1''
     \<lparr>ev_connection = Some Close, ev_statusCode = Some 401, ev_qr = None\<rparr>
     (sample_server\<lparr>messageTracker := [''s1'' \<mapsto> [1000]]\<rparr>) =
   Inr \<lparr>sessions = Map.empty, messageTracker = Map.empty, auth_dirs = {},
        qr_files = Map.empty, calls = []\<rparr>"
proof -
  let ?ev = "\<lparr>ev_connection = Some Close, ev_statusCode = Some 401, ev_qr = None\<rparr>"
  let ?st = "sample_server\<lparr>messageTracker := [''s1'' \<mapsto> [1000]]\<rparr>"
  have h1: "ev_connection ?ev = Some Close" by simp
  have h2: "ev_statusCode ?ev = Some 401" by simp
  have h3: "sessions ?st ''s1'' \<noteq> None \<or> \<not> (\<exists>q. ev_qr ?ev = Some q \<and> q \<noteq> [])" by simp
  from logged_out_teardown [OF h1 h2 h3, of "sample_env [] [] 0"]
  obtain st' where "on_connection_update (sample_env [] [] 0) 401 ''s1'' ?ev ?st = Inr st'"
    by blast
  then show ?thesis
    by (simp add: on_connection_update_def on_qr_def on_open_def on_close_def sample_server_def)
qed

end
